theory Spec2Isabelle
  imports Main
begin

section \<open>Strings, lines and paths\<close>

text \<open>
  Python strings are modelled as \<open>string\<close>; a character stands for a code point below 256.
  \<open>isspace\<close> is \<open>str.isspace\<close> on that range, \<open>strip\<close> is \<open>str.strip()\<close> with no
  argument.
\<close>

definition isspace :: "char \<Rightarrow> bool" where
  "isspace c = (c \<in> set [CHR 0x09, CHR 0x0A, CHR 0x0B, CHR 0x0C, CHR 0x0D,
                          CHR 0x1C, CHR 0x1D, CHR 0x1E, CHR 0x1F, CHR 0x20, CHR 0x85, CHR 0xA0])"

definition strip :: "string \<Rightarrow> string" where
  "strip s = rev (dropWhile isspace (rev (dropWhile isspace s)))"

text \<open>
  Iterating over a file opened in text mode yields its lines, each with its terminator;
  universal newlines turn \<open>\r\n\<close> and a lone \<open>\r\<close> into \<open>\n\<close>. The first argument is the
  line read so far.
\<close>

fun file_lines :: "string \<Rightarrow> string \<Rightarrow> string list" where
  "file_lines cur [] = (if cur = [] then [] else [cur])"
| "file_lines cur (c # cs) =
     (if c = CHR 0x0A then (cur @ [CHR 0x0A]) # file_lines [] cs
      else if c = CHR 0x0D then
        (case cs of
           [] \<Rightarrow> [cur @ [CHR 0x0A]]
         | d # ds \<Rightarrow>
             if d = CHR 0x0A then (cur @ [CHR 0x0A]) # file_lines [] ds
             else (cur @ [CHR 0x0A]) # file_lines [] cs)
      else file_lines (cur @ [c]) cs)"

text \<open>\<open>str.split(sep)\<close> for a one-character separator.\<close>

fun split_sep :: "char \<Rightarrow> string \<Rightarrow> string list" where
  "split_sep sep [] = [[]]"
| "split_sep sep (c # cs) =
     (if c = sep then [] # split_sep sep cs
      else (case split_sep sep cs of
              [] \<Rightarrow> [[c]]
            | x # xs \<Rightarrow> (c # x) # xs))"

text \<open>\<open>os.path.basename\<close> (posixpath): everything after the last slash.\<close>

definition basename :: "string \<Rightarrow> string" where
  "basename p = rev (takeWhile (\<lambda>c. c \<noteq> CHR ''/'') (rev p))"

text \<open>
  A \<open>pathlib\<close> path on POSIX: its root (empty, one slash or two) and its parts. Parsing
  drops empty and \<open>.\<close> components; \<open>truediv\<close> is the operator \<open>/\<close> with a string operand,
  which restarts from the operand when that one is rooted.
\<close>

datatype posix_path = PosixPath (root: string) (parts: "string list")

definition splitroot :: "string \<Rightarrow> string \<times> string" where
  "splitroot p =
     (if take 1 p = ''/'' then
        (if take 2 p = ''//'' \<and> take 3 p \<noteq> ''///'' then (''//'', drop 2 p) else (''/'', drop 1 p))
      else ([], p))"

definition parse_path :: "string \<Rightarrow> posix_path" where
  "parse_path s =
     (case splitroot s of
        (r, rel) \<Rightarrow> PosixPath r (filter (\<lambda>x. x \<noteq> [] \<and> x \<noteq> ''.'') (split_sep CHR ''/'' rel)))"

definition truediv :: "posix_path \<Rightarrow> string \<Rightarrow> posix_path" where
  "truediv p key =
     (let q = parse_path key
      in if root q \<noteq> [] then q else PosixPath (root p) (parts p @ parts q))"

section \<open>What the libraries hand to the program\<close>

text \<open>An exception of class \<open>Exception\<close>, as the handlers of the program see it.\<close>

datatype exn =
    RequestException string
  | HTTPError nat
  | ParserRejectedMarkup string
  | ValueError string
  | OSError string

text \<open>
  A \<open>requests\<close> response: the status, the decoded body, and for a streamed request the
  chunks that \<open>iter_content\<close> yields, followed by the error it raises, if any.
\<close>

record response =
  status_code :: nat
  resp_text :: string
  iter_content :: "string list"
  iter_error :: "exn option"

definition raise_for_status :: "response \<Rightarrow> exn option" where
  "raise_for_status r =
     (if 400 \<le> status_code r \<and> status_code r < 600 then Some (HTTPError (status_code r))
      else None)"

text \<open>The parse tree of BeautifulSoup: tags with their attribute dictionary, and strings.\<close>

datatype node =
    Tag string "(string \<times> string) list" "node list"
  | NavigableString string
  | Comment string

fun descendants :: "node \<Rightarrow> node list" where
  "descendants (Tag n a cs) = concat (map (\<lambda>c. c # descendants c) cs)"
| "descendants (NavigableString s) = []"
| "descendants (Comment s) = []"

fun tag_matches :: "string \<Rightarrow> (string \<times> string) list \<Rightarrow> node \<Rightarrow> bool" where
  "tag_matches nm kw (Tag n a cs) = (n = nm \<and> list_all (\<lambda>kv. map_of a (fst kv) = Some (snd kv)) kw)"
| "tag_matches nm kw (NavigableString s) = False"
| "tag_matches nm kw (Comment s) = False"

text \<open>\<open>soup.find(name, attrs)\<close>: the first tag in document order with that name and those
  attribute values.\<close>

definition soup_find :: "string \<Rightarrow> (string \<times> string) list \<Rightarrow> node list \<Rightarrow> node option" where
  "soup_find nm kw soup = List.find (tag_matches nm kw) (concat (map (\<lambda>c. c # descendants c) soup))"

text \<open>\<open>tag.get(key)\<close> and \<open>tag.text\<close>.\<close>

fun tag_get :: "node \<Rightarrow> string \<Rightarrow> string option" where
  "tag_get (Tag n a cs) k = map_of a k"
| "tag_get (NavigableString s) k = None"
| "tag_get (Comment s) k = None"

fun get_text :: "node \<Rightarrow> string" where
  "get_text (Tag n a cs) = concat (map get_text cs)"
| "get_text (NavigableString s) = s"
| "get_text (Comment s) = []"

text \<open>The result of \<open>urlparse\<close>.\<close>

record parse_result =
  scheme :: string
  netloc :: string
  path :: string
  params :: string
  query :: string
  fragment :: string

text \<open>
  The environment of a run: the network, the HTML parser, the URL functions of the
  standard library, and the failures of the file system. Each is a function of the
  arguments of the call; \<open>Inl\<close> and \<open>Some\<close> are a raised exception.
  \<^item> \<open>requests_get url stream\<close> is \<open>requests.get(url, stream=...)\<close>;
  \<^item> \<open>html_parser\<close> is \<open>BeautifulSoup(text, 'html.parser')\<close>, giving the top-level nodes;
  \<^item> \<open>urlparse\<close> and \<open>urljoin\<close> are those of \<open>urllib.parse\<close>;
  \<^item> \<open>mkdir_error\<close>, \<open>read_error\<close> and \<open>open_error\<close> say whether creating a directory,
    reading a text file and opening a file for writing fail; \<open>write_error p i\<close> says
    whether the write number \<open>i\<close> to the file \<open>p\<close> fails.
\<close>

record env =
  requests_get :: "string \<Rightarrow> bool \<Rightarrow> exn + response"
  html_parser :: "string \<Rightarrow> exn + node list"
  urlparse :: "string \<Rightarrow> exn + parse_result"
  urljoin :: "string \<Rightarrow> string \<Rightarrow> exn + string"
  mkdir_error :: "posix_path \<Rightarrow> exn option"
  read_error :: "posix_path \<Rightarrow> exn option"
  open_error :: "posix_path \<Rightarrow> exn option"
  write_error :: "posix_path \<Rightarrow> nat \<Rightarrow> exn option"

section \<open>The state a run changes\<close>

text \<open>Each \<open>print\<close> call of the program, by the message it formats.\<close>

datatype line =
    ApplicationStarting
  | Processing string
  | FoundOgImage string
  | DownloadedImageFrom string
  | NoOgImageFound string
  | SavedMetadataFor string
  | FailedToDownload string exn
  | FailedToProcess string exn
  | FailedToSave string exn
  | AnErrorOccurred exn

text \<open>The files and directories on disk, and the lines printed so far. Printing is taken
  to succeed.\<close>

record world =
  files :: "posix_path \<Rightarrow> string option"
  dirs :: "posix_path set"
  out :: "line list"

definition print_line :: "line \<Rightarrow> world \<Rightarrow> world" where
  "print_line l w = w\<lparr>out := out w @ [l]\<rparr>"

text \<open>\<open>open(p, 'w')\<close> creates or truncates the file; \<open>f.write(s)\<close> appends to it.\<close>

definition fopen :: "posix_path \<Rightarrow> world \<Rightarrow> world" where
  "fopen p w = w\<lparr>files := (files w)(p \<mapsto> [])\<rparr>"

definition fwrite :: "posix_path \<Rightarrow> string \<Rightarrow> world \<Rightarrow> world" where
  "fwrite p s w =
     w\<lparr>files := (files w)(p \<mapsto> (case files w p of None \<Rightarrow> s | Some c \<Rightarrow> c @ s))\<rparr>"

text \<open>A sequence of writes to an open file stops at the first one that fails, keeping what
  was written before.\<close>

fun write_all :: "env \<Rightarrow> posix_path \<Rightarrow> nat \<Rightarrow> string list \<Rightarrow> world \<Rightarrow> exn option \<times> world" where
  "write_all e p i [] w = (None, w)"
| "write_all e p i (s # ss) w =
     (case write_error e p i of
        Some x \<Rightarrow> (Some x, w)
      | None \<Rightarrow> write_all e p (Suc i) ss (fwrite p s w))"

text \<open>\<open>Path.mkdir(exist_ok=True)\<close>.\<close>

definition mkdir :: "env \<Rightarrow> posix_path \<Rightarrow> world \<Rightarrow> exn + world" where
  "mkdir e p w =
     (if p \<in> dirs w then Inr w
      else if files w p \<noteq> None then Inl (OSError ''FileExistsError'')
      else (case mkdir_error e p of
              Some x \<Rightarrow> Inl x
            | None \<Rightarrow> Inr (w\<lparr>dirs := insert p (dirs w)\<rparr>)))"

text \<open>Opening a text file for reading and reading all its lines.\<close>

definition read_lines :: "env \<Rightarrow> posix_path \<Rightarrow> world \<Rightarrow> exn + string list" where
  "read_lines e p w =
     (case files w p of
        None \<Rightarrow> Inl (OSError ''FileNotFoundError'')
      | Some c \<Rightarrow> (case read_error e p of
                    Some x \<Rightarrow> Inl x
                  | None \<Rightarrow> Inr (file_lines [] c)))"

section \<open>main.py\<close>

subsection \<open>download_image\<close>

text \<open>The file name taken from the path of the URL, or the default.\<close>

definition image_filename :: "string \<Rightarrow> string" where
  "image_filename url_path =
     (let filename = basename url_path
      in if filename = [] then ''image.jpg'' else filename)"

definition download_image :: "env \<Rightarrow> string \<Rightarrow> posix_path \<Rightarrow> world \<Rightarrow> bool \<times> world" where
  "download_image e image_url save_path w =
     (case requests_get e image_url True of
        Inl x \<Rightarrow> (False, print_line (FailedToDownload image_url x) w)
      | Inr response \<Rightarrow>
     (case raise_for_status response of
        Some x \<Rightarrow> (False, print_line (FailedToDownload image_url x) w)
      | None \<Rightarrow>
     (case urlparse e image_url of
        Inl x \<Rightarrow> (False, print_line (FailedToDownload image_url x) w)
      | Inr u \<Rightarrow>
         let filename = image_filename (path u);
             file_path = truediv save_path filename
         in (case open_error e file_path of
               Some x \<Rightarrow> (False, print_line (FailedToDownload image_url x) w)
             | None \<Rightarrow>
            (case write_all e file_path 0 (iter_content response) (fopen file_path w) of
               (Some x, w') \<Rightarrow> (False, print_line (FailedToDownload image_url x) w')
             | (None, w') \<Rightarrow>
            (case iter_error response of
               Some x \<Rightarrow> (False, print_line (FailedToDownload image_url x) w')
             | None \<Rightarrow> (True, w')))))))"

subsection \<open>get_page_metadata\<close>

definition title_text_of :: "node list \<Rightarrow> string option" where
  "title_text_of soup =
     (case soup_find ''title'' [] soup of
        Some title \<Rightarrow> Some (strip (get_text title))
      | None \<Rightarrow> None)"

definition og_image_url_of :: "env \<Rightarrow> string \<Rightarrow> node list \<Rightarrow> exn + string option" where
  "og_image_url_of e url soup =
     (case soup_find ''meta'' [(''property'', ''og:image'')] soup of
        None \<Rightarrow> Inr None
      | Some og_image \<Rightarrow>
         (case tag_get og_image ''content'' of
            None \<Rightarrow> Inr None
          | Some c \<Rightarrow>
             if c = [] then Inr None
             else (case urljoin e url c of Inl x \<Rightarrow> Inl x | Inr j \<Rightarrow> Inr (Some j))))"

definition desc_text_of :: "node list \<Rightarrow> string option" where
  "desc_text_of soup =
     (case soup_find ''meta'' [(''name'', ''description'')] soup of
        None \<Rightarrow> None
      | Some description \<Rightarrow>
         (case tag_get description ''content'' of
            None \<Rightarrow> None
          | Some c \<Rightarrow> if c = [] then None else Some (strip c)))"

text \<open>The body of the \<open>try\<close>: the three values, or the exception raised.\<close>

definition get_page_metadata_try ::
  "env \<Rightarrow> string \<Rightarrow> exn + (string option \<times> string option \<times> string option)" where
  "get_page_metadata_try e url =
     (case requests_get e url False of
        Inl x \<Rightarrow> Inl x
      | Inr response \<Rightarrow>
     (case raise_for_status response of
        Some x \<Rightarrow> Inl x
      | None \<Rightarrow>
     (case html_parser e (resp_text response) of
        Inl x \<Rightarrow> Inl x
      | Inr soup \<Rightarrow>
         let title_text = title_text_of soup
         in (case og_image_url_of e url soup of
               Inl x \<Rightarrow> Inl x
             | Inr og_image_url \<Rightarrow>
                 let desc_text = desc_text_of soup
                 in Inr (og_image_url, title_text, desc_text)))))"

definition get_page_metadata ::
  "env \<Rightarrow> string \<Rightarrow> world \<Rightarrow> (string option \<times> string option \<times> string option) \<times> world" where
  "get_page_metadata e url w =
     (case get_page_metadata_try e url of
        Inr r \<Rightarrow> (r, w)
      | Inl x \<Rightarrow> ((None, None, None), print_line (FailedToProcess url x) w))"

subsection \<open>save_metadata\<close>

text \<open>\<open>v or d\<close> for an optional string \<open>v\<close>: \<open>None\<close> and the empty string are both false.\<close>

definition or_default :: "string option \<Rightarrow> string \<Rightarrow> string" where
  "or_default v d = (case v of None \<Rightarrow> d | Some s \<Rightarrow> if s = [] then d else s)"

definition metadata_blocks :: "string \<Rightarrow> string option \<Rightarrow> string option \<Rightarrow> string list" where
  "metadata_blocks url title description =
     [''URL: '' @ url @ [CHR 0x0A, CHR 0x0A],
      ''Title: '' @ or_default title ''Not found'' @ [CHR 0x0A, CHR 0x0A],
      ''Description: '' @ or_default description ''Not found'' @ [CHR 0x0A]]"

definition save_metadata ::
  "env \<Rightarrow> string \<Rightarrow> string option \<Rightarrow> string option \<Rightarrow> posix_path \<Rightarrow> world \<Rightarrow> bool \<times> world" where
  "save_metadata e url title description save_path w =
     (case urlparse e url of
        Inl x \<Rightarrow> (False, print_line (FailedToSave url x) w)
      | Inr u \<Rightarrow>
         let filename = netloc u @ ''.txt'';
             file_path = truediv save_path filename
         in (case open_error e file_path of
               Some x \<Rightarrow> (False, print_line (FailedToSave url x) w)
             | None \<Rightarrow>
            (case write_all e file_path 0 (metadata_blocks url title description)
                    (fopen file_path w) of
               (Some x, w') \<Rightarrow> (False, print_line (FailedToSave url x) w')
             | (None, w') \<Rightarrow> (True, w'))))"

subsection \<open>main\<close>

text \<open>Truth of an optional string in a condition.\<close>

definition truthy :: "string option \<Rightarrow> bool" where
  "truthy v = (case v of None \<Rightarrow> False | Some s \<Rightarrow> s \<noteq> [])"

text \<open>The \<open>for\<close> loop over the URLs.\<close>

fun process_urls :: "env \<Rightarrow> posix_path \<Rightarrow> string list \<Rightarrow> world \<Rightarrow> world" where
  "process_urls e dist_path [] w = w"
| "process_urls e dist_path (url # urls) w =
     (let w1 = print_line (Processing url) w
      in case get_page_metadata e url w1 of
           ((og_image_url, title, description), w2) \<Rightarrow>
             let w3 =
               (if truthy og_image_url then
                  (case download_image e (the og_image_url) dist_path
                          (print_line (FoundOgImage (the og_image_url)) w2) of
                     (ok, w') \<Rightarrow> if ok then print_line (DownloadedImageFrom url) w' else w')
                else print_line (NoOgImageFound url) w2)
             in (case save_metadata e url title description dist_path w3 of
                   (ok, w4) \<Rightarrow>
                     process_urls e dist_path urls
                       (if ok then print_line (SavedMetadataFor url) w4 else w4)))"

definition read_urls :: "string list \<Rightarrow> string list" where
  "read_urls ls = [strip l. l \<leftarrow> ls, strip l \<noteq> []]"

definition main :: "env \<Rightarrow> world \<Rightarrow> nat \<times> world" where
  "main e w =
     (let w0 = print_line ApplicationStarting w;
          dist_path = parse_path ''dist''
      in case mkdir e dist_path w0 of
           Inl x \<Rightarrow> (1, print_line (AnErrorOccurred x) w0)
         | Inr w1 \<Rightarrow>
             (case read_lines e (parse_path ''urls.txt'') w1 of
                Inl x \<Rightarrow> (1, print_line (AnErrorOccurred x) w1)
              | Inr ls \<Rightarrow> (0, process_urls e dist_path (read_urls ls) w1)))"

section \<open>Specification-level descriptions\<close>

text \<open>
  The list of URLs as the specification words it: every line trimmed, the empty ones
  dropped, in the order of the file.
\<close>

definition url_list_spec :: "string list \<Rightarrow> string list" where
  "url_list_spec ls = filter (\<lambda>u. u \<noteq> []) (map strip ls)"

text \<open>
  One URL as the specification words it: call the extractor; call the image fetcher
  exactly when an image URL was found, and report its outcome; then call the metadata
  writer with the title and description obtained, and report its outcome.
\<close>

definition fetch_if_found :: "env \<Rightarrow> posix_path \<Rightarrow> string \<Rightarrow> string option \<Rightarrow> world \<Rightarrow> world" where
  "fetch_if_found e dest url og w =
     (case og of
        None \<Rightarrow> print_line (NoOgImageFound url) w
      | Some img \<Rightarrow>
          if img = [] then print_line (NoOgImageFound url) w
          else (case download_image e img dest (print_line (FoundOgImage img) w) of
                  (True, w') \<Rightarrow> print_line (DownloadedImageFrom url) w'
                | (False, w') \<Rightarrow> w'))"

definition write_always ::
  "env \<Rightarrow> posix_path \<Rightarrow> string \<Rightarrow> string option \<Rightarrow> string option \<Rightarrow> world \<Rightarrow> world" where
  "write_always e dest url title description w =
     (case save_metadata e url title description dest w of
        (True, w') \<Rightarrow> print_line (SavedMetadataFor url) w'
      | (False, w') \<Rightarrow> w')"

definition visit_spec :: "env \<Rightarrow> posix_path \<Rightarrow> world \<Rightarrow> string \<Rightarrow> world" where
  "visit_spec e dest w url =
     (case get_page_metadata e url (print_line (Processing url) w) of
        ((og, title, description), w') \<Rightarrow>
          write_always e dest url title description (fetch_if_found e dest url og w'))"

text \<open>Whether a printed line announces the start of a URL.\<close>

fun is_processing :: "line \<Rightarrow> bool" where
  "is_processing (Processing u) = True"
| "is_processing ApplicationStarting = False"
| "is_processing (FoundOgImage u) = False"
| "is_processing (DownloadedImageFrom u) = False"
| "is_processing (NoOgImageFound u) = False"
| "is_processing (SavedMetadataFor u) = False"
| "is_processing (FailedToDownload u x) = False"
| "is_processing (FailedToProcess u x) = False"
| "is_processing (FailedToSave u x) = False"
| "is_processing (AnErrorOccurred x) = False"

text \<open>
  Whether every step of a download succeeds: the request, the status check, the parse
  of the URL, the opening of the file, each write, and the stream to its end.
\<close>

definition download_succeeds :: "env \<Rightarrow> string \<Rightarrow> posix_path \<Rightarrow> bool" where
  "download_succeeds e image_url save_path =
     (case requests_get e image_url True of
        Inl x \<Rightarrow> False
      | Inr r \<Rightarrow>
          (case urlparse e image_url of
             Inl x \<Rightarrow> False
           | Inr u \<Rightarrow>
               let file_path = truediv save_path (image_filename (path u))
               in raise_for_status r = None \<and> open_error e file_path = None
                  \<and> list_all (\<lambda>i. write_error e file_path i = None) [0..<length (iter_content r)]
                  \<and> iter_error r = None))"

section \<open>An environment for worked examples\<close>

text \<open>
  A simplified \<open>urlparse\<close> and \<open>urljoin\<close>: they agree with \<open>urllib.parse\<close> on URLs of the
  shape \<open>scheme://host/path;params?query#fragment\<close> with a lower-case scheme, no
  brackets in the host, no control characters and no dot segments, which is all the
  examples use.
\<close>

definition split_scheme :: "string \<Rightarrow> string \<times> string" where
  "split_scheme url =
     (let s = takeWhile (\<lambda>c. c \<noteq> CHR '':'') url
      in if CHR '':'' \<in> set url \<and> s \<noteq> []
            \<and> hd s \<in> set ''abcdefghijklmnopqrstuvwxyz''
            \<and> list_all (\<lambda>c. c \<in> set ''abcdefghijklmnopqrstuvwxyz0123456789+-.'') s
         then (s, drop (Suc (length s)) url)
         else ([], url))"

definition uses_params :: "string list" where
  "uses_params = [[], ''ftp'', ''hdl'', ''prospero'', ''http'', ''imap'', ''https'', ''shttp'',
                  ''rtsp'', ''rtspu'', ''sip'', ''sips'', ''mms'', ''sftp'', ''tel'']"

definition simple_urlparse :: "string \<Rightarrow> exn + parse_result" where
  "simple_urlparse url =
     (case split_scheme url of
        (sch, r0) \<Rightarrow>
          let has_netloc = (take 2 r0 = ''//'');
              nl = (if has_netloc then takeWhile (\<lambda>c. c \<notin> set ''/?#'') (drop 2 r0) else []);
              r1 = (if has_netloc then dropWhile (\<lambda>c. c \<notin> set ''/?#'') (drop 2 r0) else r0);
              frag = drop 1 (dropWhile (\<lambda>c. c \<noteq> CHR ''#'') r1);
              r2 = takeWhile (\<lambda>c. c \<noteq> CHR ''#'') r1;
              qry = drop 1 (dropWhile (\<lambda>c. c \<noteq> CHR ''?'') r2);
              r3 = takeWhile (\<lambda>c. c \<noteq> CHR ''?'') r2;
              lastseg = basename r3;
              has_params = (sch \<in> set uses_params \<and> CHR '';'' \<in> set lastseg)
          in if (CHR ''['' \<in> set nl) \<noteq> (CHR '']'' \<in> set nl)
             then Inl (ValueError ''Invalid IPv6 URL'')
             else Inr \<lparr>scheme = sch, netloc = nl,
                       path = (if has_params
                               then take (length r3 - length lastseg) r3 @
                                    takeWhile (\<lambda>c. c \<noteq> CHR '';'') lastseg
                               else r3),
                       params = (if has_params
                                 then drop 1 (dropWhile (\<lambda>c. c \<noteq> CHR '';'') lastseg) else []),
                       query = qry, fragment = frag\<rparr>)"

definition simple_urljoin :: "string \<Rightarrow> string \<Rightarrow> exn + string" where
  "simple_urljoin base url =
     (if base = [] then Inr url
      else if url = [] then Inr base
      else (case simple_urlparse base of
              Inl x \<Rightarrow> Inl x
            | Inr b \<Rightarrow>
          (case simple_urlparse url of
              Inl x \<Rightarrow> Inl x
            | Inr u \<Rightarrow>
                if scheme u \<noteq> [] then Inr url
                else if take 2 url = ''//'' then Inr (scheme b @ '':'' @ url)
                else if take 1 url = ''/'' then Inr (scheme b @ ''://'' @ netloc b @ url)
                else Inr (scheme b @ ''://'' @ netloc b @
                          take (length (path b) - length (basename (path b))) (path b) @ url))))"

text \<open>
  Four pages. The first has a title, a relative og:image and a description, the second
  has og:image and description tags with an empty \<open>content\<close> and a title of blanks
  only, the third has a title and an og:image whose host opens a bracket and never closes
  it, the fourth answers 404. Every other page URL is unreachable. The image of the first
  page comes in two chunks.
\<close>

definition page_html :: string where
  "page_html = ''<title>  Foo  </title><meta property=og:image content=/pics/cat.png>'' @
               ''<meta name=description content='' @ [CHR 0x22] @ ''  Bar  '' @ [CHR 0x22] @ ''>''"

definition page_soup :: "node list" where
  "page_soup =
     [Tag ''title'' [] [NavigableString ''  Foo  ''],
      Tag ''meta'' [(''property'', ''og:image''), (''content'', ''/pics/cat.png'')] [],
      Tag ''meta'' [(''name'', ''description''), (''content'', ''  Bar  '')] []]"

definition blank_html :: string where
  "blank_html = ''<title>   </title><meta property=og:image content='' @ [CHR 0x22, CHR 0x22] @
                ''><meta name=description content='' @ [CHR 0x22, CHR 0x22] @ ''>''"

definition blank_soup :: "node list" where
  "blank_soup =
     [Tag ''title'' [] [NavigableString ''   ''],
      Tag ''meta'' [(''property'', ''og:image''), (''content'', [])] [],
      Tag ''meta'' [(''name'', ''description''), (''content'', [])] []]"

definition bracket_html :: string where
  "bracket_html = ''<title>Foo</title><meta property=og:image content=http://[>''"

definition bracket_soup :: "node list" where
  "bracket_soup =
     [Tag ''title'' [] [NavigableString ''Foo''],
      Tag ''meta'' [(''property'', ''og:image''), (''content'', ''http://['')] []]"

definition demo_get :: "string \<Rightarrow> bool \<Rightarrow> exn + response" where
  "demo_get url stream =
     (if url = ''https://a.example.com/page'' then
        Inr \<lparr>status_code = 200, resp_text = page_html, iter_content = [], iter_error = None\<rparr>
      else if url = ''https://b.example.com/'' then
        Inr \<lparr>status_code = 200, resp_text = blank_html, iter_content = [], iter_error = None\<rparr>
      else if url = ''https://c.example.com/'' then
        Inr \<lparr>status_code = 200, resp_text = bracket_html, iter_content = [], iter_error = None\<rparr>
      else if url = ''https://a.example.com/pics/cat.png'' then
        Inr \<lparr>status_code = 200, resp_text = [], iter_content = [''GIF8'', ''9a''],
             iter_error = None\<rparr>
      else if url = ''https://example.com'' then
        Inr \<lparr>status_code = 200, resp_text = [], iter_content = [''JFIF''], iter_error = None\<rparr>
      else if url = ''https://gone.example.com/x.png'' then
        Inr \<lparr>status_code = 404, resp_text = [], iter_content = [''Not Found''],
             iter_error = None\<rparr>
      else Inl (RequestException ''connection failed''))"

definition demo_parser :: "string \<Rightarrow> exn + node list" where
  "demo_parser s =
     (if s = page_html then Inr page_soup
      else if s = blank_html then Inr blank_soup
      else if s = bracket_html then Inr bracket_soup
      else Inr [])"

definition demo_env :: env where
  "demo_env =
     \<lparr>requests_get = demo_get, html_parser = demo_parser,
      urlparse = simple_urlparse, urljoin = simple_urljoin,
      mkdir_error = (\<lambda>p. None), read_error = (\<lambda>p. None),
      open_error = (\<lambda>p. None), write_error = (\<lambda>p i. None)\<rparr>"

text \<open>The same environment on a disk that fills up: the second write to any file fails.\<close>

definition full_disk_env :: env where
  "full_disk_env =
     demo_env\<lparr>write_error :=
       (\<lambda>p i. if i = 1 then Some (OSError ''No space left on device'') else None)\<rparr>"

text \<open>The same environment with no network and a read-only disk: every request and every
  opening of a file for writing fails.\<close>

definition offline_env :: env where
  "offline_env =
     demo_env\<lparr>requests_get := (\<lambda>url stream. Inl (RequestException ''network unreachable'')),
              open_error := (\<lambda>p. Some (OSError ''Read-only file system''))\<rparr>"

text \<open>An empty disk, and one that holds a URL list of four lines, one of them blank.\<close>

definition empty_world :: world where
  "empty_world = \<lparr>files = (\<lambda>p. None), dirs = {}, out = []\<rparr>"

definition urls_txt :: string where
  "urls_txt = ''  https://down.example.com/  '' @ [CHR 0x0D, CHR 0x0A, CHR 0x0A] @
              ''https://a.example.com/page'' @ [CHR 0x0A] @
              ''https://down.example.com/''"

definition listed_world :: world where
  "listed_world =
     \<lparr>files = (\<lambda>p. if p = PosixPath [] [''urls.txt''] then Some urls_txt else None),
      dirs = {}, out = []\<rparr>"

section \<open>Facts about the file system and the paths\<close>

lemma print_line_simps:
  "files (print_line l w) = files w" "dirs (print_line l w) = dirs w"
  "out (print_line l w) = out w @ [l]"
  by (simp_all add: print_line_def)

lemma fopen_simps:
  "files (fopen p w) = (files w)(p \<mapsto> [])" "dirs (fopen p w) = dirs w" "out (fopen p w) = out w"
  by (simp_all add: fopen_def)

lemma write_all_out_dirs:
  "out (snd (write_all e p i ss w)) = out w \<and> dirs (snd (write_all e p i ss w)) = dirs w"
  by (induction ss arbitrary: i w) (auto simp: fwrite_def split: option.splits)

lemma write_all_other_files:
  "q \<noteq> p \<Longrightarrow> files (snd (write_all e p i ss w)) q = files w q"
  by (induction ss arbitrary: i w) (auto simp: fwrite_def split: option.splits)

lemma write_all_ok:
  "files w p = Some c \<Longrightarrow> \<forall>k<length ss. write_error e p (i + k) = None \<Longrightarrow>
   write_all e p i ss w = (None, w\<lparr>files := (files w)(p \<mapsto> c @ concat ss)\<rparr>)"
proof (induction ss arbitrary: i w c)
  case Nil
  then show ?case by (simp add: map_upd_triv)
next
  case (Cons s ss)
  have here: "write_error e p i = None"
    using Cons.prems(2)[rule_format, of 0] by simp
  have rest: "\<forall>k<length ss. write_error e p (Suc i + k) = None"
  proof (intro allI impI)
    fix k assume "k < length ss"
    then have "Suc k < length (s # ss)" by simp
    from Cons.prems(2)[rule_format, OF this] show "write_error e p (Suc i + k) = None" by simp
  qed
  have w': "fwrite p s w = w\<lparr>files := (files w)(p \<mapsto> c @ s)\<rparr>"
    using Cons.prems(1) by (simp add: fwrite_def)
  have f: "files (fwrite p s w) p = Some (c @ s)"
    by (simp add: w')
  have "write_all e p i (s # ss) w = write_all e p (Suc i) ss (fwrite p s w)"
    using here by simp
  also have "\<dots> = (None, (fwrite p s w)\<lparr>files := (files (fwrite p s w))(p \<mapsto> (c @ s) @ concat ss)\<rparr>)"
    by (rule Cons.IH[OF f rest])
  also have "\<dots> = (None, w\<lparr>files := (files w)(p \<mapsto> c @ concat (s # ss))\<rparr>)"
    by (simp add: w')
  finally show ?case .
qed

lemma write_all_fails_iff:
  "(fst (write_all e p i ss w) = None) = (\<forall>k<length ss. write_error e p (i + k) = None)"
proof (induction ss arbitrary: i w)
  case Nil
  then show ?case by simp
next
  case (Cons s ss)
  have r: "(\<forall>k<length (s # ss). write_error e p (i + k) = None) =
           (write_error e p i = None \<and> (\<forall>k<length ss. write_error e p (Suc i + k) = None))"
    by (simp only: list.size length_Cons All_less_Suc2 add_0_right add_Suc_right add_Suc)
  have l: "(fst (write_all e p i (s # ss) w) = None) =
           (write_error e p i = None \<and> fst (write_all e p (Suc i) ss (fwrite p s w)) = None)"
    by (cases "write_error e p i") simp_all
  show ?case
    unfolding r l Cons.IH[of "Suc i" "fwrite p s w"] ..
qed

lemma write_all_ok_iff0:
  "(fst (write_all e p 0 ss w) = None) = list_all (\<lambda>i. write_error e p i = None) [0..<length ss]"
  by (auto simp: write_all_fails_iff list_all_iff)

lemma download_image_result:
  "fst (download_image e u d w) = download_succeeds e u d"
proof (cases "requests_get e u True")
  case (Inl x)
  then show ?thesis by (simp add: download_image_def download_succeeds_def)
next
  case (Inr r)
  show ?thesis
  proof (cases "urlparse e u")
    case (Inl x)
    then show ?thesis
      using Inr by (simp add: download_image_def download_succeeds_def split: option.splits)
  next
    case urlp: (Inr pr)
    let ?fp = "truediv d (image_filename (path pr))"
    have ok: "list_all (\<lambda>i. write_error e ?fp i = None) [0..<length (iter_content r)] =
              (fst (write_all e ?fp 0 (iter_content r) (fopen ?fp w)) = None)"
      by (simp add: write_all_ok_iff0)
    show ?thesis
      using Inr urlp
      by (simp add: download_image_def download_succeeds_def Let_def split_beta ok
            split: option.splits)
  qed
qed

lemma download_image_out:
  "filter is_processing (out (snd (download_image e u d w))) = filter is_processing (out w)"
  by (simp add: download_image_def Let_def split_beta print_line_simps write_all_out_dirs fopen_simps
        split: sum.splits option.splits)

lemma save_metadata_out:
  "filter is_processing (out (snd (save_metadata e u t ds d w))) = filter is_processing (out w)"
  by (simp add: save_metadata_def Let_def split_beta print_line_simps write_all_out_dirs fopen_simps
        split: sum.splits option.splits)

lemma get_page_metadata_out:
  "filter is_processing (out (snd (get_page_metadata e u w))) = filter is_processing (out w)"
  by (simp add: get_page_metadata_def print_line_simps split: sum.splits)

lemma process_urls_processing:
  "filter is_processing (out (process_urls e d urls w)) =
   filter is_processing (out w) @ map Processing urls"
proof (induction urls arbitrary: w)
  case Nil
  then show ?case by simp
next
  case (Cons url urls)
  show ?case
    by (simp add: Cons.IH Let_def split_beta print_line_simps
          download_image_out save_metadata_out get_page_metadata_out)
qed

lemma split_sep_no_sep: "sep \<notin> set s \<Longrightarrow> split_sep sep s = [s]"
  by (induction s) auto

lemma parse_path_single:
  assumes "f \<noteq> []" and "CHR ''/'' \<notin> set f" and "f \<noteq> ''.''"
  shows "parse_path f = PosixPath [] [f]"
proof -
  from assms(1,2) have "take 1 f \<noteq> ''/''" by (cases f) auto
  then have "splitroot f = ([], f)" by (simp add: splitroot_def)
  then show ?thesis
    using assms by (simp add: parse_path_def split_sep_no_sep)
qed

lemma truediv_single:
  assumes "f \<noteq> []" and "CHR ''/'' \<notin> set f" and "f \<noteq> ''.''"
  shows "truediv d f = PosixPath (root d) (parts d @ [f])"
  by (simp add: truediv_def parse_path_single[OF assms])

lemma basename_no_slash: "CHR ''/'' \<notin> set (basename p)"
  by (auto simp: basename_def dest: set_takeWhileD)

lemma takeWhile_rev_no_slash:
  "CHR ''/'' \<notin> set s \<Longrightarrow> takeWhile (\<lambda>c. c \<noteq> CHR ''/'') (rev s) = rev s"
  by (auto simp: takeWhile_eq_all_conv)

lemma basename_last_segment:
  "CHR ''/'' \<notin> set seg \<Longrightarrow> basename (dir @ ''/'' @ seg) = seg"
  by (simp add: basename_def takeWhile_tail takeWhile_rev_no_slash)

lemma basename_whole: "CHR ''/'' \<notin> set p \<Longrightarrow> basename p = p"
  by (simp add: basename_def takeWhile_rev_no_slash)

lemma image_filename_props:
  "image_filename p \<noteq> []" "CHR ''/'' \<notin> set (image_filename p)"
  by (simp_all add: image_filename_def Let_def basename_no_slash)

lemma download_image_success:
  assumes "requests_get e image_url True = Inr r" and "raise_for_status r = None"
    and "urlparse e image_url = Inr u"
    and "open_error e (truediv save_path (image_filename (path u))) = None"
    and "\<forall>k<length (iter_content r). write_error e (truediv save_path (image_filename (path u))) k = None"
    and "iter_error r = None"
  shows "download_image e image_url save_path w =
         (True, w\<lparr>files := (files w)(truediv save_path (image_filename (path u)) \<mapsto>
                                         concat (iter_content r))\<rparr>)"
proof -
  let ?fp = "truediv save_path (image_filename (path u))"
  have "files (fopen ?fp w) ?fp = Some []" by (simp add: fopen_def)
  moreover have "\<forall>k<length (iter_content r). write_error e ?fp (0 + k) = None"
    using assms(5) by simp
  ultimately have "write_all e ?fp 0 (iter_content r) (fopen ?fp w) =
      (None, (fopen ?fp w)\<lparr>files := (files (fopen ?fp w))(?fp \<mapsto> [] @ concat (iter_content r))\<rparr>)"
    by (rule write_all_ok)
  then have "write_all e ?fp 0 (iter_content r) (fopen ?fp w) =
      (None, w\<lparr>files := (files w)(?fp \<mapsto> concat (iter_content r))\<rparr>)"
    by (simp add: fopen_def)
  then show ?thesis
    using assms(1,2,3,4,6) by (simp add: download_image_def Let_def)
qed

lemma dist_path: "parse_path ''dist'' = PosixPath [] [''dist'']"
  by (simp add: parse_path_def splitroot_def)

lemma urls_txt_path: "parse_path ''urls.txt'' = PosixPath [] [''urls.txt'']"
  by (simp add: parse_path_def splitroot_def)

section \<open>The image fetcher\<close>



text \<open>
  By contrast a failure in the middle of the stream leaves the part already written: on
  the disk that fills up at the second write, the file holds the first chunk only.
\<close>

lemma download_image_partial_file_example:
  "fst (download_image full_disk_env ''https://a.example.com/pics/cat.png'' (parse_path ''dist'')
          empty_world) = False
   \<and> files (snd (download_image full_disk_env ''https://a.example.com/pics/cat.png''
          (parse_path ''dist'') empty_world)) (PosixPath [] [''dist'', ''cat.png'']) = Some ''GIF8''"
proof -
  have t1: "truediv (parse_path ''dist'') ''cat.png'' = PosixPath [] [''dist'', ''cat.png'']"
    by (simp add: truediv_def parse_path_def splitroot_def)
  have f1: "image_filename ''/pics/cat.png'' = ''cat.png''"
    by (simp add: image_filename_def basename_def)
  show ?thesis
    by (simp add: download_image_def full_disk_env_def demo_env_def demo_get_def
        raise_for_status_def simple_urlparse_def split_scheme_def uses_params_def basename_def
        f1 t1 Let_def fopen_def fwrite_def print_line_def empty_world_def)
qed

text \<open>
  C5. When the download succeeds (the request, the status check, the parse of the URL,
  the opening of the file, every write and the stream), \<open>download_image\<close> returns \<open>True\<close>
  and the file \<open>save_path / filename\<close> holds exactly the response body, every other file
  being unchanged. The file name is the final segment of the path of the URL, that is
  what follows its last slash (the whole path when it has no slash), and \<open>image.jpg\<close>
  when that segment is empty. Unless the name is a single dot, the file is the entry
  of that name directly in the destination directory.
\<close>

theorem download_image_filename:
  assumes "requests_get e image_url True = Inr r" and "raise_for_status r = None"
    and "urlparse e image_url = Inr u"
    and "open_error e (truediv save_path (image_filename (path u))) = None"
    and "\<forall>k<length (iter_content r). write_error e (truediv save_path (image_filename (path u))) k = None"
    and "iter_error r = None"
  shows "download_image e image_url save_path w =
           (True, w\<lparr>files := (files w)(truediv save_path (image_filename (path u)) \<mapsto>
                                           concat (iter_content r))\<rparr>)
         \<and> (\<forall>dir seg. path u = dir @ ''/'' @ seg \<and> CHR ''/'' \<notin> set seg \<longrightarrow>
                image_filename (path u) = (if seg = [] then ''image.jpg'' else seg))
         \<and> (CHR ''/'' \<notin> set (path u) \<longrightarrow>
                image_filename (path u) = (if path u = [] then ''image.jpg'' else path u))
         \<and> (image_filename (path u) \<noteq> ''.'' \<longrightarrow>
                truediv save_path (image_filename (path u)) =
                PosixPath (root save_path) (parts save_path @ [image_filename (path u)]))"
proof (intro conjI allI impI)
  show "download_image e image_url save_path w =
           (True, w\<lparr>files := (files w)(truediv save_path (image_filename (path u)) \<mapsto>
                                           concat (iter_content r))\<rparr>)"
    by (rule download_image_success[OF assms])
next
  fix dir seg
  assume "path u = dir @ ''/'' @ seg \<and> CHR ''/'' \<notin> set seg"
  then show "image_filename (path u) = (if seg = [] then ''image.jpg'' else seg)"
    using basename_last_segment[of seg dir] by (simp add: image_filename_def)
next
  assume "CHR ''/'' \<notin> set (path u)"
  then show "image_filename (path u) = (if path u = [] then ''image.jpg'' else path u)"
    by (simp add: image_filename_def basename_whole)
next
  assume "image_filename (path u) \<noteq> ''.''"
  then show "truediv save_path (image_filename (path u)) =
                PosixPath (root save_path) (parts save_path @ [image_filename (path u)])"
    by (intro truediv_single image_filename_props)
qed

text \<open>The instances: a URL ending in \<open>/pics/cat.png\<close> is saved as \<open>dist/cat.png\<close>, and a
  URL with no path as \<open>dist/image.jpg\<close>.\<close>

theorem download_image_filename_witness:
  "download_image demo_env ''https://a.example.com/pics/cat.png'' (parse_path ''dist'') empty_world =
     (True, empty_world\<lparr>files := (files empty_world)(PosixPath [] [''dist'', ''cat.png''] \<mapsto> ''GIF89a'')\<rparr>)
   \<and> download_image demo_env ''https://example.com'' (parse_path ''dist'') empty_world =
     (True, empty_world\<lparr>files := (files empty_world)(PosixPath [] [''dist'', ''image.jpg''] \<mapsto> ''JFIF'')\<rparr>)"
proof -
  have g1: "requests_get demo_env ''https://a.example.com/pics/cat.png'' True =
      Inr \<lparr>status_code = 200, resp_text = [], iter_content = [''GIF8'', ''9a''], iter_error = None\<rparr>"
    by (simp add: demo_env_def demo_get_def)
  have p1: "urlparse demo_env ''https://a.example.com/pics/cat.png'' =
      Inr \<lparr>scheme = ''https'', netloc = ''a.example.com'', path = ''/pics/cat.png'',
           params = [], query = [], fragment = []\<rparr>"
    by (simp add: demo_env_def simple_urlparse_def split_scheme_def uses_params_def basename_def)
  have g2: "requests_get demo_env ''https://example.com'' True =
      Inr \<lparr>status_code = 200, resp_text = [], iter_content = [''JFIF''], iter_error = None\<rparr>"
    by (simp add: demo_env_def demo_get_def)
  have p2: "urlparse demo_env ''https://example.com'' =
      Inr \<lparr>scheme = ''https'', netloc = ''example.com'', path = [],
           params = [], query = [], fragment = []\<rparr>"
    by (simp add: demo_env_def simple_urlparse_def split_scheme_def uses_params_def basename_def)
  have e: "open_error demo_env = (\<lambda>p. None)" "write_error demo_env = (\<lambda>p i. None)"
    by (simp_all add: demo_env_def)
  have f1: "image_filename ''/pics/cat.png'' = ''cat.png''"
    and f2: "image_filename [] = ''image.jpg''"
    by (simp_all add: image_filename_def basename_def)
  have t1: "truediv (parse_path ''dist'') ''cat.png'' = PosixPath [] [''dist'', ''cat.png'']"
    and t2: "truediv (parse_path ''dist'') ''image.jpg'' = PosixPath [] [''dist'', ''image.jpg'']"
    by (simp_all add: truediv_def parse_path_def splitroot_def)
  show ?thesis
    using download_image_filename[OF g1 _ p1, of "parse_path ''dist''" empty_world]
      download_image_filename[OF g2 _ p2, of "parse_path ''dist''" empty_world]
    by (simp add: e f1 f2 t1 t2 raise_for_status_def)
qed

section \<open>Trimming\<close>

lemma last_dropWhile_same: "dropWhile P xs \<noteq> [] \<Longrightarrow> last (dropWhile P xs) = last xs"
  by (induction xs) (auto split: if_splits)

lemma strip_decompose:
  "s = takeWhile isspace s @ strip s @ rev (takeWhile isspace (rev (dropWhile isspace s)))"
proof -
  let ?d = "dropWhile isspace s"
  have "strip s @ rev (takeWhile isspace (rev ?d)) =
        rev (takeWhile isspace (rev ?d) @ dropWhile isspace (rev ?d))"
    unfolding strip_def rev_append ..
  also have "\<dots> = rev (rev ?d)"
    unfolding takeWhile_dropWhile_id ..
  finally have "strip s @ rev (takeWhile isspace (rev ?d)) = ?d"
    by simp
  then have "takeWhile isspace s @ strip s @ rev (takeWhile isspace (rev ?d)) =
             takeWhile isspace s @ ?d"
    by simp
  then show ?thesis by simp
qed

lemma strip_trimmed:
  assumes "strip s \<noteq> []"
  shows "\<not> isspace (hd (strip s))" and "\<not> isspace (last (strip s))"
proof -
  let ?d = "dropWhile isspace s"
  let ?t = "dropWhile isspace (rev ?d)"
  from assms have t: "?t \<noteq> []" by (simp add: strip_def)
  have d: "?d \<noteq> []"
  proof
    assume e: "?d = []"
    have "?t = []" unfolding e by simp
    with t show False ..
  qed
  have "hd (strip s) = last ?t" using t by (simp add: strip_def hd_rev)
  also have "\<dots> = last (rev ?d)" using t by (rule last_dropWhile_same)
  also have "\<dots> = hd ?d" using d by (simp add: last_rev)
  finally show "\<not> isspace (hd (strip s))" using hd_dropWhile[OF d] by simp
  have "last (strip s) = hd ?t" using t by (simp add: strip_def last_rev)
  then show "\<not> isspace (last (strip s))" using hd_dropWhile[OF t] by simp
qed

lemma strip_blank:
  assumes "list_all isspace s"
  shows "strip s = []"
proof -
  from assms have d: "dropWhile isspace s = []" by (simp add: list_all_iff)
  show ?thesis unfolding strip_def d by simp
qed

lemma strip_examples: "strip ''  Foo  '' = ''Foo''" "strip ''  Bar  '' = ''Bar''" "strip [] = []"
  by (simp_all add: strip_def isspace_def)

section \<open>The metadata writer\<close>

lemma save_metadata_success:
  assumes "urlparse e url = Inr u"
    and "open_error e (truediv save_path (netloc u @ ''.txt'')) = None"
    and "\<forall>k<3. write_error e (truediv save_path (netloc u @ ''.txt'')) k = None"
  shows "save_metadata e url title description save_path w =
         (True, w\<lparr>files := (files w)(truediv save_path (netloc u @ ''.txt'') \<mapsto>
                                         concat (metadata_blocks url title description))\<rparr>)"
proof -
  let ?fp = "truediv save_path (netloc u @ ''.txt'')"
  let ?bs = "metadata_blocks url title description"
  have len: "length ?bs = 3" by (simp add: metadata_blocks_def)
  have "files (fopen ?fp w) ?fp = Some []" by (simp add: fopen_def)
  moreover have "\<forall>k<length ?bs. write_error e ?fp (0 + k) = None"
    using assms(3) by (simp only: len add_0)
  ultimately have "write_all e ?fp 0 ?bs (fopen ?fp w) =
      (None, (fopen ?fp w)\<lparr>files := (files (fopen ?fp w))(?fp \<mapsto> [] @ concat ?bs)\<rparr>)"
    by (rule write_all_ok)
  then have "write_all e ?fp 0 ?bs (fopen ?fp w) =
      (None, w\<lparr>files := (files w)(?fp \<mapsto> concat ?bs)\<rparr>)"
    by (simp add: fopen_def)
  then show ?thesis
    using assms(1,2) by (simp add: save_metadata_def Let_def)
qed

lemma txt_name_single:
  assumes "CHR ''/'' \<notin> set h"
  shows "truediv d (h @ ''.txt'') = PosixPath (root d) (parts d @ [h @ ''.txt''])"
proof (rule truediv_single)
  show "h @ ''.txt'' \<noteq> []" by simp
  show "CHR ''/'' \<notin> set (h @ ''.txt'')" using assms by simp
  show "h @ ''.txt'' \<noteq> ''.''"
  proof
    assume "h @ ''.txt'' = ''.''"
    then have "length (h @ ''.txt'') = length ''.''" by (rule arg_cong)
    then show False by simp
  qed
qed

text \<open>
  C2, as amended. When the URL parses and the file can be opened and written,
  \<open>save_metadata\<close> returns \<open>True\<close> and the file \<open>save_path / (netloc + '.txt')\<close> holds
  exactly the three blocks \<open>URL:\<close>, \<open>Title:\<close> and \<open>Description:\<close>, whatever the file held
  before; every other file is unchanged. \<open>Not found\<close> stands for a title or description
  that is absent or the empty string; a non-empty value is written as it is. The network
  location never holds a slash, and then the file is the entry \<open>netloc.txt\<close> directly in the
  destination directory.
\<close>

theorem save_metadata_file:
  assumes "urlparse e url = Inr u"
    and "open_error e (truediv save_path (netloc u @ ''.txt'')) = None"
    and "\<forall>k<3. write_error e (truediv save_path (netloc u @ ''.txt'')) k = None"
  shows "save_metadata e url title description save_path w =
           (True, w\<lparr>files := (files w)(truediv save_path (netloc u @ ''.txt'') \<mapsto>
              ''URL: '' @ url @ [CHR 0x0A, CHR 0x0A] @
              ''Title: '' @
                (case title of None \<Rightarrow> ''Not found''
                 | Some t \<Rightarrow> if t = [] then ''Not found'' else t) @ [CHR 0x0A, CHR 0x0A] @
              ''Description: '' @
                (case description of None \<Rightarrow> ''Not found''
                 | Some d \<Rightarrow> if d = [] then ''Not found'' else d) @ [CHR 0x0A])\<rparr>)
         \<and> (CHR ''/'' \<notin> set (netloc u) \<longrightarrow>
              truediv save_path (netloc u @ ''.txt'') =
              PosixPath (root save_path) (parts save_path @ [netloc u @ ''.txt'']))"
proof (intro conjI impI)
  have c: "concat (metadata_blocks url title description) =
              ''URL: '' @ url @ [CHR 0x0A, CHR 0x0A] @
              ''Title: '' @
                (case title of None \<Rightarrow> ''Not found''
                 | Some t \<Rightarrow> if t = [] then ''Not found'' else t) @ [CHR 0x0A, CHR 0x0A] @
              ''Description: '' @
                (case description of None \<Rightarrow> ''Not found''
                 | Some d \<Rightarrow> if d = [] then ''Not found'' else d) @ [CHR 0x0A]"
    by (simp add: metadata_blocks_def or_default_def)
  show "save_metadata e url title description save_path w =
           (True, w\<lparr>files := (files w)(truediv save_path (netloc u @ ''.txt'') \<mapsto>
              ''URL: '' @ url @ [CHR 0x0A, CHR 0x0A] @
              ''Title: '' @
                (case title of None \<Rightarrow> ''Not found''
                 | Some t \<Rightarrow> if t = [] then ''Not found'' else t) @ [CHR 0x0A, CHR 0x0A] @
              ''Description: '' @
                (case description of None \<Rightarrow> ''Not found''
                 | Some d \<Rightarrow> if d = [] then ''Not found'' else d) @ [CHR 0x0A])\<rparr>)"
    unfolding c[symmetric] by (rule save_metadata_success[OF assms])
next
  assume "CHR ''/'' \<notin> set (netloc u)"
  then show "truediv save_path (netloc u @ ''.txt'') =
              PosixPath (root save_path) (parts save_path @ [netloc u @ ''.txt''])"
    by (rule txt_name_single)
qed

lemma demo_urlparse_page:
  "urlparse demo_env ''https://a.example.com/page'' =
      Inr \<lparr>scheme = ''https'', netloc = ''a.example.com'', path = ''/page'',
           params = [], query = [], fragment = []\<rparr>"
  by (simp add: demo_env_def simple_urlparse_def split_scheme_def uses_params_def basename_def)

lemma demo_no_fs_errors:
  "open_error demo_env = (\<lambda>p. None)" "write_error demo_env = (\<lambda>p i. None)"
  "mkdir_error demo_env = (\<lambda>p. None)" "read_error demo_env = (\<lambda>p. None)"
  by (simp_all add: demo_env_def)

lemma dist_truediv_page:
  "truediv (parse_path ''dist'') ''a.example.com.txt'' = PosixPath [] [''dist'', ''a.example.com.txt'']"
  by (simp add: truediv_def parse_path_def splitroot_def)

text \<open>The instance of the specification: the page \<open>https://a.example.com/page\<close>, no title,
  the description \<open>hi\<close>, over a stale file of the same name.\<close>

theorem save_metadata_file_witness:
  "save_metadata demo_env ''https://a.example.com/page'' None (Some ''hi'') (parse_path ''dist'')
      (fwrite (PosixPath [] [''dist'', ''a.example.com.txt'']) ''stale'' empty_world) =
     (True, (fwrite (PosixPath [] [''dist'', ''a.example.com.txt'']) ''stale'' empty_world)
        \<lparr>files := (files (fwrite (PosixPath [] [''dist'', ''a.example.com.txt'']) ''stale'' empty_world))
           (PosixPath [] [''dist'', ''a.example.com.txt''] \<mapsto>
              ''URL: https://a.example.com/page'' @ [CHR 0x0A, CHR 0x0A] @
              ''Title: Not found'' @ [CHR 0x0A, CHR 0x0A] @
              ''Description: hi'' @ [CHR 0x0A])\<rparr>)"
  using save_metadata_file[OF demo_urlparse_page, of "parse_path ''dist''" None "Some ''hi''"
      "fwrite (PosixPath [] [''dist'', ''a.example.com.txt'']) ''stale'' empty_world"]
  by (simp add: demo_no_fs_errors dist_truediv_page)

text \<open>
  C2 as stated fails for a title that is present and empty: the file says \<open>Not found\<close>
  where the claim has the empty value written as it is.
\<close>

theorem save_metadata_empty_title_counterexample:
  "files (snd (save_metadata demo_env ''https://a.example.com/page'' (Some []) (Some ''hi'')
        (parse_path ''dist'') empty_world)) (PosixPath [] [''dist'', ''a.example.com.txt'']) =
     Some (''URL: https://a.example.com/page'' @ [CHR 0x0A, CHR 0x0A] @
           ''Title: Not found'' @ [CHR 0x0A, CHR 0x0A] @ ''Description: hi'' @ [CHR 0x0A])
   \<and> files (snd (save_metadata demo_env ''https://a.example.com/page'' (Some []) (Some ''hi'')
        (parse_path ''dist'') empty_world)) (PosixPath [] [''dist'', ''a.example.com.txt'']) \<noteq>
     Some (''URL: https://a.example.com/page'' @ [CHR 0x0A, CHR 0x0A] @
           ''Title: '' @ [] @ [CHR 0x0A, CHR 0x0A] @ ''Description: hi'' @ [CHR 0x0A])"
  by (simp add: save_metadata_success[OF demo_urlparse_page] demo_no_fs_errors dist_truediv_page
        metadata_blocks_def or_default_def)

section \<open>The metadata extractor\<close>

lemma get_page_metadata_fetched:
  assumes "requests_get e url False = Inr r" and "raise_for_status r = None"
    and "html_parser e (resp_text r) = Inr soup"
  shows "get_page_metadata_try e url =
         (case og_image_url_of e url soup of
            Inl x \<Rightarrow> Inl x
          | Inr og \<Rightarrow> Inr (og, title_text_of soup, desc_text_of soup))"
  using assms by (simp add: get_page_metadata_try_def Let_def split: sum.splits)

lemma get_page_metadata_parsed:
  assumes "requests_get e url False = Inr r" and "raise_for_status r = None"
    and "html_parser e (resp_text r) = Inr soup" and "og_image_url_of e url soup = Inr og"
  shows "get_page_metadata e url w = ((og, title_text_of soup, desc_text_of soup), w)"
  by (simp add: get_page_metadata_def get_page_metadata_fetched[OF assms(1,2,3)] assms(4))


lemma demo_get_page:
  "requests_get demo_env ''https://a.example.com/page'' False =
     Inr \<lparr>status_code = 200, resp_text = page_html, iter_content = [], iter_error = None\<rparr>"
  by (simp add: demo_env_def demo_get_def)

lemma demo_get_blank:
  "requests_get demo_env ''https://b.example.com/'' False =
     Inr \<lparr>status_code = 200, resp_text = blank_html, iter_content = [], iter_error = None\<rparr>"
  by (simp add: demo_env_def demo_get_def)

lemma demo_parse_page: "html_parser demo_env page_html = Inr page_soup"
  by (simp add: demo_env_def demo_parser_def)

lemma demo_parse_blank: "html_parser demo_env blank_html = Inr blank_soup"
  by (simp add: demo_env_def demo_parser_def blank_html_def page_html_def)

lemma status_200_ok:
  "raise_for_status \<lparr>status_code = 200, resp_text = b, iter_content = cs, iter_error = x\<rparr> = None"
  by (simp add: raise_for_status_def)

lemma demo_urljoin_cat:
  "urljoin demo_env ''https://a.example.com/page'' ''/pics/cat.png'' =
     Inr ''https://a.example.com/pics/cat.png''"
  by (simp add: demo_env_def simple_urljoin_def simple_urlparse_def split_scheme_def
        uses_params_def basename_def)

lemma page_soup_finds:
  "soup_find ''title'' [] page_soup = Some (Tag ''title'' [] [NavigableString ''  Foo  ''])"
  "soup_find ''meta'' [(''property'', ''og:image'')] page_soup =
     Some (Tag ''meta'' [(''property'', ''og:image''), (''content'', ''/pics/cat.png'')] [])"
  "soup_find ''meta'' [(''name'', ''description'')] page_soup =
     Some (Tag ''meta'' [(''name'', ''description''), (''content'', ''  Bar  '')] [])"
  by (simp_all add: soup_find_def page_soup_def)

lemma blank_soup_finds:
  "soup_find ''title'' [] blank_soup = Some (Tag ''title'' [] [NavigableString ''   ''])"
  "soup_find ''meta'' [(''property'', ''og:image'')] blank_soup =
     Some (Tag ''meta'' [(''property'', ''og:image''), (''content'', [])] [])"
  "soup_find ''meta'' [(''name'', ''description'')] blank_soup =
     Some (Tag ''meta'' [(''name'', ''description''), (''content'', [])] [])"
  by (simp_all add: soup_find_def blank_soup_def)

lemma demo_og_page:
  "og_image_url_of demo_env ''https://a.example.com/page'' page_soup =
     Inr (Some ''https://a.example.com/pics/cat.png'')"
  by (simp add: og_image_url_of_def page_soup_finds demo_urljoin_cat)

lemma demo_og_blank: "og_image_url_of demo_env ''https://b.example.com/'' blank_soup = Inr None"
  by (simp add: og_image_url_of_def blank_soup_finds)

lemma demo_parse_page_resp:
  "html_parser demo_env (resp_text
      \<lparr>status_code = 200, resp_text = page_html, iter_content = [], iter_error = None\<rparr>) = Inr page_soup"
  by (simp add: demo_parse_page)

lemma demo_parse_blank_resp:
  "html_parser demo_env (resp_text
      \<lparr>status_code = 200, resp_text = blank_html, iter_content = [], iter_error = None\<rparr>) = Inr blank_soup"
  by (simp add: demo_parse_blank)



text \<open>
  The resolution of the image URL can itself raise, and then the title and description
  found before and after it are lost with it: on the third page \<open>urljoin\<close> rejects the
  host of the image, and all three values come back absent although the page has a
  title.
\<close>

lemma get_page_metadata_urljoin_error_example:
  "soup_find ''title'' [] bracket_soup = Some (Tag ''title'' [] [NavigableString ''Foo''])
   \<and> get_page_metadata_try demo_env ''https://c.example.com/'' = Inl (ValueError ''Invalid IPv6 URL'')
   \<and> fst (get_page_metadata demo_env ''https://c.example.com/'' empty_world) = (None, None, None)"
proof -
  have g: "requests_get demo_env ''https://c.example.com/'' False =
     Inr \<lparr>status_code = 200, resp_text = bracket_html, iter_content = [], iter_error = None\<rparr>"
    by (simp add: demo_env_def demo_get_def)
  have p: "html_parser demo_env (resp_text
      \<lparr>status_code = 200, resp_text = bracket_html, iter_content = [], iter_error = None\<rparr>) =
      Inr bracket_soup"
    by (simp add: demo_env_def demo_parser_def bracket_html_def blank_html_def page_html_def)
  have j: "urljoin demo_env ''https://c.example.com/'' ''http://['' = Inl (ValueError ''Invalid IPv6 URL'')"
    by (simp add: demo_env_def simple_urljoin_def simple_urlparse_def split_scheme_def
          uses_params_def basename_def)
  have o: "og_image_url_of demo_env ''https://c.example.com/'' bracket_soup =
      Inl (ValueError ''Invalid IPv6 URL'')"
    by (simp add: og_image_url_of_def soup_find_def bracket_soup_def j)
  have t: "get_page_metadata_try demo_env ''https://c.example.com/'' = Inl (ValueError ''Invalid IPv6 URL'')"
    by (simp add: get_page_metadata_fetched[OF g status_200_ok p] o)
  show ?thesis
    by (simp add: t get_page_metadata_def soup_find_def bracket_soup_def)
qed

text \<open>
  C6, as amended. For a page that is fetched with an accepted status and parsed, and whose
  og:image resolution raises nothing: the title is absent when there is no \<open>title\<close> tag
  and is otherwise the trimmed text of the first one; the description is absent when
  there is no \<open>meta\<close> tag named \<open>description\<close>, is the trimmed \<open>content\<close> of the first
  such tag when that is non-empty, and is absent when that tag has no \<open>content\<close> or an
  empty one.
\<close>

theorem get_page_metadata_title_description:
  assumes "requests_get e url False = Inr r" and "raise_for_status r = None"
    and "html_parser e (resp_text r) = Inr soup" and "og_image_url_of e url soup = Inr og"
  shows "(soup_find ''title'' [] soup = None \<longrightarrow>
            fst (snd (fst (get_page_metadata e url w))) = None)
       \<and> (\<forall>t. soup_find ''title'' [] soup = Some t \<longrightarrow>
            fst (snd (fst (get_page_metadata e url w))) = Some (strip (get_text t)))
       \<and> (soup_find ''meta'' [(''name'', ''description'')] soup = None \<longrightarrow>
            snd (snd (fst (get_page_metadata e url w))) = None)
       \<and> (\<forall>t c. soup_find ''meta'' [(''name'', ''description'')] soup = Some t \<and>
            tag_get t ''content'' = Some c \<and> c \<noteq> [] \<longrightarrow>
            snd (snd (fst (get_page_metadata e url w))) = Some (strip c))
       \<and> (\<forall>t. soup_find ''meta'' [(''name'', ''description'')] soup = Some t \<and>
            (tag_get t ''content'' = None \<or> tag_get t ''content'' = Some []) \<longrightarrow>
            snd (snd (fst (get_page_metadata e url w))) = None)"
proof -
  have g: "get_page_metadata e url w = ((og, title_text_of soup, desc_text_of soup), w)"
    by (rule get_page_metadata_parsed[OF assms])
  show ?thesis
    unfolding g by (auto simp: title_text_of_def desc_text_of_def)
qed

text \<open>The instance: a title of \<open>Foo\<close> and a description of \<open>Bar\<close>, both between blanks.\<close>

theorem get_page_metadata_title_description_witness:
  "soup_find ''title'' [] page_soup = Some (Tag ''title'' [] [NavigableString ''  Foo  ''])
   \<and> fst (snd (fst (get_page_metadata demo_env ''https://a.example.com/page'' empty_world))) = Some ''Foo''
   \<and> snd (snd (fst (get_page_metadata demo_env ''https://a.example.com/page'' empty_world))) = Some ''Bar''"
  using get_page_metadata_title_description[OF demo_get_page status_200_ok demo_parse_page_resp
      demo_og_page, of empty_world]
  by (simp add: page_soup_finds strip_examples)

text \<open>
  C6 as stated fails for a description tag with an empty \<open>content\<close>: the tag exists, its
  trimmed content is the empty string, and the description returned is absent.
\<close>

theorem get_page_metadata_description_empty_counterexample:
  "html_parser demo_env blank_html = Inr blank_soup
   \<and> soup_find ''meta'' [(''name'', ''description'')] blank_soup =
     Some (Tag ''meta'' [(''name'', ''description''), (''content'', [])] [])
   \<and> tag_get (Tag ''meta'' [(''name'', ''description''), (''content'', [])] []) ''content'' = Some []
   \<and> get_page_metadata_try demo_env ''https://b.example.com/'' = Inr (None, Some [], None)
   \<and> snd (snd (fst (get_page_metadata demo_env ''https://b.example.com/'' empty_world))) = None
   \<and> snd (snd (fst (get_page_metadata demo_env ''https://b.example.com/'' empty_world))) \<noteq>
       Some (strip [])"
proof -
  have t: "get_page_metadata_try demo_env ''https://b.example.com/'' = Inr (None, Some [], None)"
    by (simp add: get_page_metadata_fetched[OF demo_get_blank status_200_ok demo_parse_blank_resp]
          demo_og_blank title_text_of_def desc_text_of_def blank_soup_finds strip_def isspace_def)
  show ?thesis
    by (simp add: t get_page_metadata_def demo_parse_blank blank_soup_finds)
qed

text \<open>
  C10. \<open>save_metadata\<close> does the same for an empty title as for an absent one, and the
  same for an empty description as for an absent one; when the file is written, both
  fields read \<open>Not found\<close>. An empty title is what \<open>get_page_metadata\<close> returns for a
  \<open>title\<close> tag whose text is whitespace only.
\<close>

theorem save_metadata_empty_as_absent:
  "save_metadata e url (Some []) description save_path w =
     save_metadata e url None description save_path w
   \<and> save_metadata e url title (Some []) save_path w =
     save_metadata e url title None save_path w
   \<and> (urlparse e url = Inr u \<and> open_error e (truediv save_path (netloc u @ ''.txt'')) = None \<and>
      (\<forall>k<3. write_error e (truediv save_path (netloc u @ ''.txt'')) k = None) \<longrightarrow>
        files (snd (save_metadata e url (Some []) (Some []) save_path w))
          (truediv save_path (netloc u @ ''.txt'')) =
        Some (''URL: '' @ url @ [CHR 0x0A, CHR 0x0A] @ ''Title: Not found'' @ [CHR 0x0A, CHR 0x0A] @
              ''Description: Not found'' @ [CHR 0x0A]))
   \<and> (requests_get e url False = Inr r \<and> raise_for_status r = None \<and>
      html_parser e (resp_text r) = Inr soup \<and> og_image_url_of e url soup = Inr og \<and>
      soup_find ''title'' [] soup = Some t \<and> list_all isspace (get_text t) \<longrightarrow>
        fst (snd (fst (get_page_metadata e url w))) = Some [])"
proof (intro conjI impI)
  have b1: "metadata_blocks url (Some []) description = metadata_blocks url None description"
    by (simp add: metadata_blocks_def or_default_def)
  show "save_metadata e url (Some []) description save_path w =
     save_metadata e url None description save_path w"
    unfolding save_metadata_def b1 ..
  have b2: "metadata_blocks url title (Some []) = metadata_blocks url title None"
    by (simp add: metadata_blocks_def or_default_def)
  show "save_metadata e url title (Some []) save_path w =
     save_metadata e url title None save_path w"
    unfolding save_metadata_def b2 ..
next
  assume "urlparse e url = Inr u \<and> open_error e (truediv save_path (netloc u @ ''.txt'')) = None \<and>
      (\<forall>k<3. write_error e (truediv save_path (netloc u @ ''.txt'')) k = None)"
  then have s1: "urlparse e url = Inr u"
    and s2: "open_error e (truediv save_path (netloc u @ ''.txt'')) = None"
    and s3: "\<forall>k<3. write_error e (truediv save_path (netloc u @ ''.txt'')) k = None"
    by simp_all
  have "save_metadata e url (Some []) (Some []) save_path w =
         (True, w\<lparr>files := (files w)(truediv save_path (netloc u @ ''.txt'') \<mapsto>
                                         concat (metadata_blocks url (Some []) (Some [])))\<rparr>)"
    by (rule save_metadata_success[OF s1 s2 s3])
  then show "files (snd (save_metadata e url (Some []) (Some []) save_path w))
          (truediv save_path (netloc u @ ''.txt'')) =
        Some (''URL: '' @ url @ [CHR 0x0A, CHR 0x0A] @ ''Title: Not found'' @ [CHR 0x0A, CHR 0x0A] @
              ''Description: Not found'' @ [CHR 0x0A])"
    by (simp add: metadata_blocks_def or_default_def)
next
  assume a: "requests_get e url False = Inr r \<and> raise_for_status r = None \<and>
      html_parser e (resp_text r) = Inr soup \<and> og_image_url_of e url soup = Inr og \<and>
      soup_find ''title'' [] soup = Some t \<and> list_all isspace (get_text t)"
  then have a1: "requests_get e url False = Inr r" and a2: "raise_for_status r = None"
    and a3: "html_parser e (resp_text r) = Inr soup" and a4: "og_image_url_of e url soup = Inr og"
    by simp_all
  have "get_page_metadata e url w = ((og, title_text_of soup, desc_text_of soup), w)"
    by (rule get_page_metadata_parsed[OF a1 a2 a3 a4])
  then show "fst (snd (fst (get_page_metadata e url w))) = Some []"
    using a by (simp add: title_text_of_def strip_blank)
qed

lemma dist_truediv_blank:
  "truediv (parse_path ''dist'') ''b.example.com.txt'' = PosixPath [] [''dist'', ''b.example.com.txt'']"
  by (simp add: truediv_def parse_path_def splitroot_def)

lemma demo_urlparse_blank:
  "urlparse demo_env ''https://b.example.com/'' =
      Inr \<lparr>scheme = ''https'', netloc = ''b.example.com'', path = ''/'',
           params = [], query = [], fragment = []\<rparr>"
  by (simp add: demo_env_def simple_urlparse_def split_scheme_def uses_params_def basename_def)

text \<open>The instance: the page whose title is three blanks.\<close>

theorem save_metadata_empty_as_absent_witness:
  "fst (snd (fst (get_page_metadata demo_env ''https://b.example.com/'' empty_world))) = Some []
   \<and> files (snd (save_metadata demo_env ''https://b.example.com/'' (Some []) (Some [])
        (parse_path ''dist'') empty_world)) (PosixPath [] [''dist'', ''b.example.com.txt'']) =
     Some (''URL: https://b.example.com/'' @ [CHR 0x0A, CHR 0x0A] @ ''Title: Not found'' @
           [CHR 0x0A, CHR 0x0A] @ ''Description: Not found'' @ [CHR 0x0A])"
proof -
  note t = save_metadata_empty_as_absent[where e = demo_env and url = "''https://b.example.com/''"
      and save_path = "parse_path ''dist''" and w = empty_world
      and title = "Some []" and description = "Some []"
      and u = "\<lparr>scheme = ''https'', netloc = ''b.example.com'', path = ''/'',
           params = [], query = [], fragment = []\<rparr>"
      and r = "\<lparr>status_code = 200, resp_text = blank_html, iter_content = [], iter_error = None\<rparr>"
      and soup = blank_soup and og = None and t = "Tag ''title'' [] [NavigableString ''   '']"]
  have written: "files (snd (save_metadata demo_env ''https://b.example.com/'' (Some []) (Some [])
        (parse_path ''dist'') empty_world)) (PosixPath [] [''dist'', ''b.example.com.txt'']) =
     Some (''URL: https://b.example.com/'' @ [CHR 0x0A, CHR 0x0A] @ ''Title: Not found'' @
           [CHR 0x0A, CHR 0x0A] @ ''Description: Not found'' @ [CHR 0x0A])"
    using t[THEN conjunct2, THEN conjunct2, THEN conjunct1]
    by (simp add: demo_urlparse_blank demo_no_fs_errors dist_truediv_blank)
  have blank: "fst (snd (fst (get_page_metadata demo_env ''https://b.example.com/'' empty_world))) = Some []"
    using t[THEN conjunct2, THEN conjunct2, THEN conjunct2]
    by (simp add: demo_get_blank status_200_ok demo_parse_blank demo_og_blank blank_soup_finds
          isspace_def)
  from blank written show ?thesis by (rule conjI)
qed

section \<open>The driver\<close>

text \<open>
  C4. When the request fails, or the status is one that \<open>raise_for_status\<close> rejects, or
  the parser fails, or the og:image resolution fails, \<open>get_page_metadata\<close> returns three
  absent values and prints the failure. The loop then goes on to \<open>save_metadata\<close> with an
  absent title and description for that URL, and continues with the remaining URLs;
  when the writer's own steps succeed the file records \<open>Not found\<close> twice.
\<close>

theorem extraction_failure_recorded:
  assumes "requests_get e url False = Inl x \<or>
           (\<exists>r. requests_get e url False = Inr r \<and>
              (raise_for_status r = Some x \<or>
               (raise_for_status r = None \<and>
                 (html_parser e (resp_text r) = Inl x \<or>
                  (\<exists>soup. html_parser e (resp_text r) = Inr soup \<and>
                          og_image_url_of e url soup = Inl x)))))"
  shows "get_page_metadata e url w = ((None, None, None), print_line (FailedToProcess url x) w)
       \<and> process_urls e dist_path (url # urls) w =
           (case save_metadata e url None None dist_path
                   (print_line (NoOgImageFound url)
                     (print_line (FailedToProcess url x) (print_line (Processing url) w))) of
              (ok, w4) \<Rightarrow>
                process_urls e dist_path urls
                  (if ok then print_line (SavedMetadataFor url) w4 else w4))
       \<and> (urlparse e url = Inr u \<and>
          open_error e (truediv dist_path (netloc u @ ''.txt'')) = None \<and>
          (\<forall>k<3. write_error e (truediv dist_path (netloc u @ ''.txt'')) k = None) \<longrightarrow>
            save_metadata e url None None dist_path w' =
              (True, w'\<lparr>files := (files w')(truediv dist_path (netloc u @ ''.txt'') \<mapsto>
                 ''URL: '' @ url @ [CHR 0x0A, CHR 0x0A] @ ''Title: Not found'' @
                 [CHR 0x0A, CHR 0x0A] @ ''Description: Not found'' @ [CHR 0x0A])\<rparr>))"
proof (intro conjI impI)
  from assms have t: "get_page_metadata_try e url = Inl x"
    by (auto simp: get_page_metadata_try_def Let_def)
  show g: "get_page_metadata e url w = ((None, None, None), print_line (FailedToProcess url x) w)" for w
    by (simp add: get_page_metadata_def t)
  show "process_urls e dist_path (url # urls) w =
           (case save_metadata e url None None dist_path
                   (print_line (NoOgImageFound url)
                     (print_line (FailedToProcess url x) (print_line (Processing url) w))) of
              (ok, w4) \<Rightarrow>
                process_urls e dist_path urls
                  (if ok then print_line (SavedMetadataFor url) w4 else w4))"
    by (simp add: g truthy_def Let_def)
next
  assume "urlparse e url = Inr u \<and>
          open_error e (truediv dist_path (netloc u @ ''.txt'')) = None \<and>
          (\<forall>k<3. write_error e (truediv dist_path (netloc u @ ''.txt'')) k = None)"
  then have s1: "urlparse e url = Inr u"
    and s2: "open_error e (truediv dist_path (netloc u @ ''.txt'')) = None"
    and s3: "\<forall>k<3. write_error e (truediv dist_path (netloc u @ ''.txt'')) k = None"
    by simp_all
  show "save_metadata e url None None dist_path w' =
              (True, w'\<lparr>files := (files w')(truediv dist_path (netloc u @ ''.txt'') \<mapsto>
                 ''URL: '' @ url @ [CHR 0x0A, CHR 0x0A] @ ''Title: Not found'' @
                 [CHR 0x0A, CHR 0x0A] @ ''Description: Not found'' @ [CHR 0x0A])\<rparr>)"
    by (simp add: save_metadata_success[OF s1 s2 s3] metadata_blocks_def or_default_def)
qed

lemma demo_get_down:
  "requests_get demo_env ''https://down.example.com/'' False =
     Inl (RequestException ''connection failed'')"
  by (simp add: demo_env_def demo_get_def)

lemma demo_urlparse_down:
  "urlparse demo_env ''https://down.example.com/'' =
      Inr \<lparr>scheme = ''https'', netloc = ''down.example.com'', path = ''/'',
           params = [], query = [], fragment = []\<rparr>"
  by (simp add: demo_env_def simple_urlparse_def split_scheme_def uses_params_def basename_def)

lemma dist_truediv_down:
  "truediv (parse_path ''dist'') ''down.example.com.txt'' =
     PosixPath [] [''dist'', ''down.example.com.txt'']"
  by (simp add: truediv_def parse_path_def splitroot_def)

text \<open>The instance: the unreachable \<open>https://down.example.com/\<close>.\<close>

theorem extraction_failure_recorded_witness:
  "requests_get demo_env ''https://down.example.com/'' False =
     Inl (RequestException ''connection failed'')
   \<and> fst (get_page_metadata demo_env ''https://down.example.com/'' empty_world) = (None, None, None)
   \<and> files (process_urls demo_env (parse_path ''dist'') [''https://down.example.com/''] empty_world)
       (PosixPath [] [''dist'', ''down.example.com.txt'']) =
     Some (''URL: https://down.example.com/'' @ [CHR 0x0A, CHR 0x0A] @ ''Title: Not found'' @
           [CHR 0x0A, CHR 0x0A] @ ''Description: Not found'' @ [CHR 0x0A])
   \<and> out (process_urls demo_env (parse_path ''dist'') [''https://down.example.com/''] empty_world) =
     [Processing ''https://down.example.com/'',
      FailedToProcess ''https://down.example.com/'' (RequestException ''connection failed''),
      NoOgImageFound ''https://down.example.com/'',
      SavedMetadataFor ''https://down.example.com/'']"
  using extraction_failure_recorded[where e = demo_env and url = "''https://down.example.com/''"
      and x = "RequestException ''connection failed''" and w = empty_world
      and dist_path = "parse_path ''dist''" and urls = "[]"
      and u = "\<lparr>scheme = ''https'', netloc = ''down.example.com'', path = ''/'',
           params = [], query = [], fragment = []\<rparr>"
      and w' = "print_line (NoOgImageFound ''https://down.example.com/'')
                 (print_line (FailedToProcess ''https://down.example.com/''
                     (RequestException ''connection failed''))
                   (print_line (Processing ''https://down.example.com/'') empty_world))"]
  by (simp add: demo_get_down demo_urlparse_down demo_no_fs_errors dist_truediv_down
        print_line_def empty_world_def)

lemma mkdir_effect:
  assumes "mkdir e p w = Inr w1"
  shows "files w1 = files w" and "out w1 = out w"
    and "dirs w \<subseteq> dirs w1" and "dirs w1 \<subseteq> insert p (dirs w)"
  using assms by (auto simp: mkdir_def split: if_splits option.splits)

lemma read_urls_spec: "read_urls ls = url_list_spec ls"
  by (induction ls) (simp_all add: read_urls_def url_list_spec_def)

lemma process_urls_visit:
  "process_urls e dest urls w = foldl (visit_spec e dest) w urls"
proof (induction urls arbitrary: w)
  case Nil
  then show ?case by simp
next
  case (Cons url urls)
  show ?case
    by (simp add: Cons.IH visit_spec_def fetch_if_found_def write_always_def truthy_def Let_def
          split: prod.splits option.splits bool.splits)
qed

text \<open>
  C7. When the output directory can be made and \<open>urls.txt\<close> read, \<open>main\<close> returns 0 and
  its effect is that of visiting, from first to last, the trimmed non-empty lines of the
  file (nothing reordered, nothing removed but the empty lines), each visit being the
  extractor, then the image fetcher exactly when a non-empty image URL came back, then the
  metadata writer with the title and description obtained.
\<close>

theorem main_pipeline:
  assumes "mkdir e (parse_path ''dist'') (print_line ApplicationStarting w) = Inr w1"
    and "files w1 (parse_path ''urls.txt'') = Some content"
    and "read_error e (parse_path ''urls.txt'') = None"
  shows "main e w =
         (0, foldl (visit_spec e (parse_path ''dist'')) w1 (url_list_spec (file_lines [] content)))"
  using assms
  by (simp add: main_def Let_def read_lines_def read_urls_spec process_urls_visit)

lemma listed_urls:
  "url_list_spec (file_lines [] urls_txt) =
     [''https://down.example.com/'', ''https://a.example.com/page'', ''https://down.example.com/'']"
  by (simp add: urls_txt_def url_list_spec_def strip_def isspace_def)

lemma listed_start:
  "mkdir demo_env (parse_path ''dist'') (print_line ApplicationStarting listed_world) =
     Inr (listed_world\<lparr>dirs := {PosixPath [] [''dist'']}, out := [ApplicationStarting]\<rparr>)"
  by (simp add: mkdir_def dist_path listed_world_def print_line_def demo_no_fs_errors)

lemmas demo_run_simps =
  visit_spec_def fetch_if_found_def write_always_def get_page_metadata_def
  get_page_metadata_try_def download_image_def save_metadata_def metadata_blocks_def
  or_default_def og_image_url_of_def title_text_of_def desc_text_of_def
  demo_env_def demo_get_def demo_parser_def raise_for_status_def
  simple_urlparse_def simple_urljoin_def split_scheme_def uses_params_def basename_def
  image_filename_def truediv_def dist_path parse_path_def splitroot_def
  soup_find_def page_soup_def page_html_def blank_html_def strip_def isspace_def
  fopen_def fwrite_def print_line_def listed_world_def Let_def

text \<open>The instance: the list of four lines, where the same URL stands twice and is visited
  twice.\<close>

theorem main_pipeline_witness:
  "main demo_env listed_world =
     (0, foldl (visit_spec demo_env (parse_path ''dist''))
           (listed_world\<lparr>dirs := {PosixPath [] [''dist'']}, out := [ApplicationStarting]\<rparr>)
           [''https://down.example.com/'', ''https://a.example.com/page'',
            ''https://down.example.com/''])
   \<and> out (snd (main demo_env listed_world)) =
     [ApplicationStarting,
      Processing ''https://down.example.com/'',
      FailedToProcess ''https://down.example.com/'' (RequestException ''connection failed''),
      NoOgImageFound ''https://down.example.com/'',
      SavedMetadataFor ''https://down.example.com/'',
      Processing ''https://a.example.com/page'',
      FoundOgImage ''https://a.example.com/pics/cat.png'',
      DownloadedImageFrom ''https://a.example.com/page'',
      SavedMetadataFor ''https://a.example.com/page'',
      Processing ''https://down.example.com/'',
      FailedToProcess ''https://down.example.com/'' (RequestException ''connection failed''),
      NoOgImageFound ''https://down.example.com/'',
      SavedMetadataFor ''https://down.example.com/'']"
proof -
  have f: "files (listed_world\<lparr>dirs := {PosixPath [] [''dist'']}, out := [ApplicationStarting]\<rparr>)
             (parse_path ''urls.txt'') = Some urls_txt"
    by (simp add: listed_world_def urls_txt_path)
  have r: "read_error demo_env (parse_path ''urls.txt'') = None"
    by (simp add: demo_no_fs_errors)
  note m = main_pipeline[OF listed_start f r]
  have run: "main demo_env listed_world =
     (0, foldl (visit_spec demo_env (parse_path ''dist''))
           (listed_world\<lparr>dirs := {PosixPath [] [''dist'']}, out := [ApplicationStarting]\<rparr>)
           [''https://down.example.com/'', ''https://a.example.com/page'',
            ''https://down.example.com/''])"
    using m by (simp only: listed_urls)
  show ?thesis
    unfolding run by (simp add: demo_run_simps)
qed

text \<open>
  C3. The exit code of \<open>main\<close> is 0 exactly when the directory could be made and the list
  read, whatever happens for the URLs after that, and 1 exactly when one of these two
  steps raised. When \<open>urls.txt\<close> does not exist the exit code is 1, no file is created or
  changed, and the only directory that may be new is \<open>dist\<close>.
\<close>

theorem main_exit_code:
  "(fst (main e w) = 0) =
     (\<exists>w1 ls. mkdir e (parse_path ''dist'') (print_line ApplicationStarting w) = Inr w1 \<and>
              read_lines e (parse_path ''urls.txt'') w1 = Inr ls)
   \<and> (fst (main e w) = 1) =
     ((\<exists>x. mkdir e (parse_path ''dist'') (print_line ApplicationStarting w) = Inl x) \<or>
      (\<exists>w1 x. mkdir e (parse_path ''dist'') (print_line ApplicationStarting w) = Inr w1 \<and>
              read_lines e (parse_path ''urls.txt'') w1 = Inl x))
   \<and> (files w (parse_path ''urls.txt'') = None \<longrightarrow>
        fst (main e w) = 1 \<and> files (snd (main e w)) = files w \<and>
        dirs w \<subseteq> dirs (snd (main e w)) \<and>
        dirs (snd (main e w)) \<subseteq> insert (parse_path ''dist'') (dirs w))"
proof (intro conjI)
  show "(fst (main e w) = 0) =
     (\<exists>w1 ls. mkdir e (parse_path ''dist'') (print_line ApplicationStarting w) = Inr w1 \<and>
              read_lines e (parse_path ''urls.txt'') w1 = Inr ls)"
    by (auto simp: main_def Let_def split: sum.splits)
  show "(fst (main e w) = 1) =
     ((\<exists>x. mkdir e (parse_path ''dist'') (print_line ApplicationStarting w) = Inl x) \<or>
      (\<exists>w1 x. mkdir e (parse_path ''dist'') (print_line ApplicationStarting w) = Inr w1 \<and>
              read_lines e (parse_path ''urls.txt'') w1 = Inl x))"
    by (auto simp: main_def Let_def split: sum.splits)
  show "files w (parse_path ''urls.txt'') = None \<longrightarrow>
        fst (main e w) = 1 \<and> files (snd (main e w)) = files w \<and>
        dirs w \<subseteq> dirs (snd (main e w)) \<and>
        dirs (snd (main e w)) \<subseteq> insert (parse_path ''dist'') (dirs w)"
  proof (rule impI, cases "mkdir e (parse_path ''dist'') (print_line ApplicationStarting w)")
    case (Inl x)
    assume missing: "files w (parse_path ''urls.txt'') = None"
    from Inl show "fst (main e w) = 1 \<and> files (snd (main e w)) = files w \<and>
        dirs w \<subseteq> dirs (snd (main e w)) \<and>
        dirs (snd (main e w)) \<subseteq> insert (parse_path ''dist'') (dirs w)"
      by (auto simp: main_def Let_def print_line_simps)
  next
    case (Inr w1)
    assume missing: "files w (parse_path ''urls.txt'') = None"
    from mkdir_effect[OF Inr] have f: "files w1 = files w"
      and d1: "dirs w \<subseteq> dirs w1" and d2: "dirs w1 \<subseteq> insert (parse_path ''dist'') (dirs w)"
      by (simp_all add: print_line_simps)
    have "read_lines e (parse_path ''urls.txt'') w1 = Inl (OSError ''FileNotFoundError'')"
      using missing by (simp add: read_lines_def f)
    then show "fst (main e w) = 1 \<and> files (snd (main e w)) = files w \<and>
        dirs w \<subseteq> dirs (snd (main e w)) \<and>
        dirs (snd (main e w)) \<subseteq> insert (parse_path ''dist'') (dirs w)"
      using Inr f d1 d2 by (simp add: main_def Let_def print_line_simps)
  qed
qed

lemma env_fs_simps:
  "mkdir_error full_disk_env = (\<lambda>p. None)" "read_error full_disk_env = (\<lambda>p. None)"
  "mkdir_error offline_env = (\<lambda>p. None)" "read_error offline_env = (\<lambda>p. None)"
  by (simp_all add: full_disk_env_def offline_env_def demo_env_def)

lemma listed_lines:
  "read_urls (file_lines [] urls_txt) =
     [''https://down.example.com/'', ''https://a.example.com/page'', ''https://down.example.com/'']"
  by (simp add: urls_txt_def read_urls_def strip_def isspace_def)

text \<open>The instances: an empty disk, and a full list with no network and a read-only disk,
  where every extraction and every write fails and the exit code is still 0.\<close>

theorem main_exit_code_witness:
  "fst (main demo_env empty_world) = 1
   \<and> files (snd (main demo_env empty_world)) = files empty_world
   \<and> dirs (snd (main demo_env empty_world)) \<subseteq> {PosixPath [] [''dist'']}
   \<and> fst (main offline_env listed_world) = 0
   \<and> out (snd (main offline_env listed_world)) =
     [ApplicationStarting,
      Processing ''https://down.example.com/'',
      FailedToProcess ''https://down.example.com/'' (RequestException ''network unreachable''),
      NoOgImageFound ''https://down.example.com/'',
      FailedToSave ''https://down.example.com/'' (OSError ''Read-only file system''),
      Processing ''https://a.example.com/page'',
      FailedToProcess ''https://a.example.com/page'' (RequestException ''network unreachable''),
      NoOgImageFound ''https://a.example.com/page'',
      FailedToSave ''https://a.example.com/page'' (OSError ''Read-only file system''),
      Processing ''https://down.example.com/'',
      FailedToProcess ''https://down.example.com/'' (RequestException ''network unreachable''),
      NoOgImageFound ''https://down.example.com/'',
      FailedToSave ''https://down.example.com/'' (OSError ''Read-only file system'')]"
proof -
  have missing: "files empty_world (parse_path ''urls.txt'') = None"
    by (simp add: empty_world_def)
  note gone = main_exit_code[of demo_env empty_world, THEN conjunct2, THEN conjunct2, rule_format,
      OF missing]
  have start: "mkdir offline_env (parse_path ''dist'') (print_line ApplicationStarting listed_world) =
     Inr (listed_world\<lparr>dirs := {PosixPath [] [''dist'']}, out := [ApplicationStarting]\<rparr>)"
    by (simp add: mkdir_def dist_path listed_world_def print_line_def env_fs_simps)
  have rd: "read_lines offline_env (parse_path ''urls.txt'')
      (listed_world\<lparr>dirs := {PosixPath [] [''dist'']}, out := [ApplicationStarting]\<rparr>) =
      Inr (file_lines [] urls_txt)"
    by (simp add: read_lines_def listed_world_def urls_txt_path env_fs_simps)
  have zero: "fst (main offline_env listed_world) = 0"
    using main_exit_code[of offline_env listed_world, THEN conjunct1] start rd by simp
  have run: "main offline_env listed_world =
      (0, process_urls offline_env (parse_path ''dist'')
            [''https://down.example.com/'', ''https://a.example.com/page'',
             ''https://down.example.com/'']
            (listed_world\<lparr>dirs := {PosixPath [] [''dist'']}, out := [ApplicationStarting]\<rparr>))"
    by (simp add: main_def Let_def start rd listed_lines)
  have log: "out (snd (main offline_env listed_world)) =
     [ApplicationStarting,
      Processing ''https://down.example.com/'',
      FailedToProcess ''https://down.example.com/'' (RequestException ''network unreachable''),
      NoOgImageFound ''https://down.example.com/'',
      FailedToSave ''https://down.example.com/'' (OSError ''Read-only file system''),
      Processing ''https://a.example.com/page'',
      FailedToProcess ''https://a.example.com/page'' (RequestException ''network unreachable''),
      NoOgImageFound ''https://a.example.com/page'',
      FailedToSave ''https://a.example.com/page'' (OSError ''Read-only file system''),
      Processing ''https://down.example.com/'',
      FailedToProcess ''https://down.example.com/'' (RequestException ''network unreachable''),
      NoOgImageFound ''https://down.example.com/'',
      FailedToSave ''https://down.example.com/'' (OSError ''Read-only file system'')]"
    unfolding run
    by (simp add: get_page_metadata_def get_page_metadata_try_def save_metadata_def truthy_def
          offline_env_def demo_env_def simple_urlparse_def split_scheme_def uses_params_def
          basename_def truediv_def dist_path parse_path_def splitroot_def print_line_def
          listed_world_def Let_def)
  from gone zero log show ?thesis
    by (simp add: empty_world_def dist_path)
qed

text \<open>
  C8. \<open>download_image\<close> always returns a truth value: \<open>True\<close> exactly when every step of
  the download succeeds, \<open>False\<close> as soon as the request, the status check, the parse of
  the URL, the opening of the file, a write or the stream fails. And whatever fails for
  single URLs, once the list is read \<open>main\<close> returns 0 having started every URL of the
  list, in order.
\<close>

theorem download_image_failure_contained:
  "fst (download_image e image_url save_path w) = download_succeeds e image_url save_path
   \<and> (mkdir e (parse_path ''dist'') (print_line ApplicationStarting w) = Inr w1 \<and>
      read_lines e (parse_path ''urls.txt'') w1 = Inr ls \<longrightarrow>
        fst (main e w) = 0 \<and>
        filter is_processing (out (snd (main e w))) =
          filter is_processing (out w) @ map Processing (read_urls ls))"
proof (intro conjI impI)
  show "fst (download_image e image_url save_path w) = download_succeeds e image_url save_path"
    by (rule download_image_result)
next
  assume a: "mkdir e (parse_path ''dist'') (print_line ApplicationStarting w) = Inr w1 \<and>
      read_lines e (parse_path ''urls.txt'') w1 = Inr ls"
  then have m: "mkdir e (parse_path ''dist'') (print_line ApplicationStarting w) = Inr w1"
    and r: "read_lines e (parse_path ''urls.txt'') w1 = Inr ls"
    by simp_all
  have o: "out w1 = out w @ [ApplicationStarting]"
    using mkdir_effect(2)[OF m] by (simp add: print_line_simps)
  have run: "main e w = (0, process_urls e (parse_path ''dist'') (read_urls ls) w1)"
    using m r by (simp add: main_def Let_def)
  show "fst (main e w) = 0" by (simp add: run)
  show "filter is_processing (out (snd (main e w))) =
          filter is_processing (out w) @ map Processing (read_urls ls)"
    by (simp add: run process_urls_processing o)
qed

text \<open>The instance: the disk that fills up, where the image download and every metadata
  write fail and all three URLs are still processed.\<close>

theorem download_image_failure_contained_witness:
  "download_succeeds full_disk_env ''https://a.example.com/pics/cat.png'' (parse_path ''dist'') = False
   \<and> fst (download_image full_disk_env ''https://a.example.com/pics/cat.png'' (parse_path ''dist'')
          listed_world) = False
   \<and> fst (main full_disk_env listed_world) = 0
   \<and> filter is_processing (out (snd (main full_disk_env listed_world))) =
     [Processing ''https://down.example.com/'', Processing ''https://a.example.com/page'',
      Processing ''https://down.example.com/'']"
proof -
  have start: "mkdir full_disk_env (parse_path ''dist'') (print_line ApplicationStarting listed_world) =
     Inr (listed_world\<lparr>dirs := {PosixPath [] [''dist'']}, out := [ApplicationStarting]\<rparr>)"
    by (simp add: mkdir_def dist_path listed_world_def print_line_def env_fs_simps)
  have rd: "read_lines full_disk_env (parse_path ''urls.txt'')
      (listed_world\<lparr>dirs := {PosixPath [] [''dist'']}, out := [ApplicationStarting]\<rparr>) =
      Inr (file_lines [] urls_txt)"
    by (simp add: read_lines_def listed_world_def urls_txt_path env_fs_simps)
  have no: "download_succeeds full_disk_env ''https://a.example.com/pics/cat.png''
      (parse_path ''dist'') = False"
    by (simp add: download_succeeds_def full_disk_env_def demo_env_def demo_get_def
          simple_urlparse_def split_scheme_def uses_params_def basename_def image_filename_def
          raise_for_status_def Let_def)
  note t = download_image_failure_contained[where e = full_disk_env
      and image_url = "''https://a.example.com/pics/cat.png''" and save_path = "parse_path ''dist''"
      and w = listed_world
      and ?w1.0 = "listed_world\<lparr>dirs := {PosixPath [] [''dist'']}, out := [ApplicationStarting]\<rparr>"
      and ls = "file_lines [] urls_txt"]
  from t no start rd show ?thesis
    by (simp add: listed_lines listed_world_def)
qed

end
